theory Spec2Isabelle
  imports Main
begin

section \<open>Python values used by the address book\<close>

text \<open>
  A Python \<open>str\<close> is a sequence of code points. It is modelled as a \<open>string\<close> whose
  characters are the code points below 256 (the Latin-1 block), so \<open>length\<close> counts
  what Python's \<open>len\<close> counts. The character classes below are those of CPython's
  \<open>str.isdigit\<close>, \<open>str.isspace\<close> and the regular expression class \<open>\d\<close> on
  that block.
\<close>

datatype error =
    ValueError string
  | KeyError string
  | TypeError string
  | OverflowError string

definition code_point :: "char \<Rightarrow> nat" where
  "code_point c = of_char c"

definition isdecimal_char :: "char \<Rightarrow> bool" where
  \<comment> \<open>the decimal digits \<open>0\<close> .. \<open>9\<close>; also what \<open>\d\<close> matches\<close>
  "isdecimal_char c = (48 \<le> code_point c \<and> code_point c \<le> 57)"

definition isdigit_char :: "char \<Rightarrow> bool" where
  \<comment> \<open>\<open>str.isdigit\<close> on one character: the decimal digits and the superscript digits
      U+00B2, U+00B3 and U+00B9\<close>
  "isdigit_char c =
     (isdecimal_char c \<or> code_point c = 178 \<or> code_point c = 179 \<or> code_point c = 185)"

definition isspace_char :: "char \<Rightarrow> bool" where
  "isspace_char c =
     ((9 \<le> code_point c \<and> code_point c \<le> 13) \<or> (28 \<le> code_point c \<and> code_point c \<le> 32)
      \<or> code_point c = 133 \<or> code_point c = 160)"

definition isdigit :: "string \<Rightarrow> bool" where
  \<comment> \<open>\<open>str.isdigit\<close>: all characters are digits and there is at least one\<close>
  "isdigit s = (s \<noteq> [] \<and> list_all isdigit_char s)"

definition strip :: "string \<Rightarrow> string" where
  "strip s = rev (dropWhile isspace_char (rev (dropWhile isspace_char s)))"

definition digit_val :: "char \<Rightarrow> nat" where
  "digit_val c = code_point c - 48"

definition digit_char :: "nat \<Rightarrow> char" where
  "digit_char n = char_of (48 + n)"

fun str_nat :: "nat \<Rightarrow> string" where
  "str_nat n = (if n < 10 then [digit_char n] else str_nat (n div 10) @ [digit_char (n mod 10)])"

declare str_nat.simps [simp del]

definition str_int :: "int \<Rightarrow> string" where
  "str_int i = (if i < 0 then CHR ''-'' # str_nat (nat (- i)) else str_nat (nat i))"

definition zfill :: "nat \<Rightarrow> string \<Rightarrow> string" where
  "zfill w s = replicate (w - length s) CHR ''0'' @ s"

definition int_str :: "string \<Rightarrow> int" where
  \<comment> \<open>\<open>int(s)\<close> on the groups the date pattern captures: decimal digits, after
      surrounding white space is dropped\<close>
  "int_str s = int (foldl (\<lambda>a c. 10 * a + digit_val c) 0 (strip s))"

subsection \<open>Calendar dates\<close>

text \<open>
  \<open>datetime.date\<close>: a year in 1 .. 9999, a month and a day of that month, in the
  proleptic Gregorian calendar. The functions follow the library's \<open>_is_leap\<close>,
  \<open>_days_in_month\<close>, \<open>_days_before_year\<close>, \<open>_days_before_month\<close>, \<open>_ymd2ord\<close> and
  \<open>_check_date_fields\<close>.
\<close>

record date =
  year :: int
  month :: int
  day :: int

definition MINYEAR :: int where "MINYEAR = 1"
definition MAXYEAR :: int where "MAXYEAR = 9999"
definition MAXORDINAL :: int where "MAXORDINAL = 3652059"

definition is_leap :: "int \<Rightarrow> bool" where
  "is_leap y = (y mod 4 = 0 \<and> (y mod 100 \<noteq> 0 \<or> y mod 400 = 0))"

definition days_in_month :: "int \<Rightarrow> int \<Rightarrow> int" where
  "days_in_month y m =
     (if m = 2 then (if is_leap y then 29 else 28)
      else if m = 4 \<or> m = 6 \<or> m = 9 \<or> m = 11 then 30 else 31)"

definition days_before_year :: "int \<Rightarrow> int" where
  "days_before_year y = (let y1 = y - 1 in y1 * 365 + y1 div 4 - y1 div 100 + y1 div 400)"

definition days_before_month :: "int \<Rightarrow> int \<Rightarrow> int" where
  "days_before_month y m =
     [0, 0, 31, 59, 90, 120, 151, 181, 212, 243, 273, 304, 334] ! nat m
       + (if m > 2 \<and> is_leap y then 1 else 0)"

definition ymd2ord :: "int \<Rightarrow> int \<Rightarrow> int \<Rightarrow> int" where
  "ymd2ord y m d = days_before_year y + days_before_month y m + d"

definition valid_date :: "date \<Rightarrow> bool" where
  "valid_date d =
     (MINYEAR \<le> year d \<and> year d \<le> MAXYEAR \<and> 1 \<le> month d \<and> month d \<le> 12
      \<and> 1 \<le> day d \<and> day d \<le> days_in_month (year d) (month d))"

definition date_new :: "int \<Rightarrow> int \<Rightarrow> int \<Rightarrow> error + date" where
  \<comment> \<open>\<open>date(year, month, day)\<close> with the checks of \<open>_check_date_fields\<close>, in their order\<close>
  "date_new y m d =
     (if \<not> (MINYEAR \<le> y \<and> y \<le> MAXYEAR)
        then Inl (ValueError (''year '' @ str_int y @ '' is out of range''))
      else if \<not> (1 \<le> m \<and> m \<le> 12) then Inl (ValueError ''month must be in 1..12'')
      else if \<not> (1 \<le> d \<and> d \<le> days_in_month y m)
        then Inl (ValueError ''day is out of range for month'')
      else Inr \<lparr>year = y, month = m, day = d\<rparr>)"

definition replace_year :: "date \<Rightarrow> int \<Rightarrow> error + date" where
  \<comment> \<open>\<open>d.replace(year=y)\<close>: a new date from the changed fields, checked again\<close>
  "replace_year d y = date_new y (month d) (day d)"

definition toordinal :: "date \<Rightarrow> int" where
  "toordinal d = ymd2ord (year d) (month d) (day d)"

definition weekday :: "date \<Rightarrow> int" where
  \<comment> \<open>Monday is 0, Sunday is 6\<close>
  "weekday d = (toordinal d + 6) mod 7"

definition date_lt :: "date \<Rightarrow> date \<Rightarrow> bool" where
  \<comment> \<open>\<open>a < b\<close>: the comparison of the tuples (year, month, day)\<close>
  "date_lt a b =
     (year a < year b \<or> (year a = year b \<and>
        (month a < month b \<or> (month a = month b \<and> day a < day b))))"

definition sub_days :: "date \<Rightarrow> date \<Rightarrow> int" where
  \<comment> \<open>\<open>(a - b).days\<close>\<close>
  "sub_days a b = toordinal a - toordinal b"

definition next_day :: "date \<Rightarrow> date" where
  "next_day d =
     (if day d < days_in_month (year d) (month d) then d\<lparr>day := day d + 1\<rparr>
      else if month d < 12 then d\<lparr>month := month d + 1, day := 1\<rparr>
      else \<lparr>year = year d + 1, month = 1, day = 1\<rparr>)"

definition add_days :: "date \<Rightarrow> nat \<Rightarrow> error + date" where
  \<comment> \<open>\<open>d + timedelta(days=k)\<close> for \<open>k \<ge> 0\<close>: the date \<open>k\<close> days later, or OverflowError
      past 31.12.9999\<close>
  "add_days d k =
     (if toordinal d + int k > MAXORDINAL then Inl (OverflowError ''date value out of range'')
      else Inr ((next_day ^^ k) d))"

definition strftime :: "bool \<Rightarrow> date \<Rightarrow> string" where
  \<comment> \<open>\<open>d.strftime("%d.%m.%Y")\<close>. CPython hands \<open>%Y\<close> to the C library: \<open>pad_year\<close> says
      whether that library pads a year below 1000 with zeros to four digits (glibc does
      not)\<close>
  "strftime pad_year d =
     zfill 2 (str_int (day d)) @ ''.'' @ zfill 2 (str_int (month d)) @ ''.'' @
     (if pad_year then zfill 4 (str_int (year d)) else str_int (year d))"

subsection \<open>Parsing a date with the format \<open>%d.%m.%Y\<close>\<close>

text \<open>
  \<open>datetime.strptime(value, "%d.%m.%Y")\<close> compiles the format to the regular expression
  \<^verbatim>\<open>(?P<d>3[0-1]|[1-2]\d|0[1-9]|[1-9]| [1-9])\.(?P<m>1[0-2]|0[1-9]|[1-9])\.(?P<Y>\d\d\d\d)\<close>,
  matches it at the start of the string, refuses text after the match, and builds the
  date from the three groups. A matcher returns, in the order in which the regular
  expression engine tries them, every way of matching a prefix: the captured text and
  the rest of the input.
\<close>

definition in_range :: "char \<Rightarrow> char \<Rightarrow> char \<Rightarrow> bool" where
  "in_range lo hi c = (code_point lo \<le> code_point c \<and> code_point c \<le> code_point hi)"

definition two_chars :: "(char \<Rightarrow> bool) \<Rightarrow> (char \<Rightarrow> bool) \<Rightarrow> string \<Rightarrow> (string \<times> string) list" where
  "two_chars p q s =
     (case s of a # b # rest \<Rightarrow> (if p a \<and> q b then [([a, b], rest)] else []) | _ \<Rightarrow> [])"

definition one_char :: "(char \<Rightarrow> bool) \<Rightarrow> string \<Rightarrow> (string \<times> string) list" where
  "one_char p s = (case s of a # rest \<Rightarrow> (if p a then [([a], rest)] else []) | _ \<Rightarrow> [])"

definition group_d :: "string \<Rightarrow> (string \<times> string) list" where
  "group_d s =
     two_chars (\<lambda>c. c = CHR ''3'') (in_range CHR ''0'' CHR ''1'') s @
     two_chars (in_range CHR ''1'' CHR ''2'') isdecimal_char s @
     two_chars (\<lambda>c. c = CHR ''0'') (in_range CHR ''1'' CHR ''9'') s @
     one_char (in_range CHR ''1'' CHR ''9'') s @
     two_chars (\<lambda>c. c = CHR '' '') (in_range CHR ''1'' CHR ''9'') s"

definition group_m :: "string \<Rightarrow> (string \<times> string) list" where
  "group_m s =
     two_chars (\<lambda>c. c = CHR ''1'') (in_range CHR ''0'' CHR ''2'') s @
     two_chars (\<lambda>c. c = CHR ''0'') (in_range CHR ''1'' CHR ''9'') s @
     one_char (in_range CHR ''1'' CHR ''9'') s"

definition group_Y :: "string \<Rightarrow> (string \<times> string) list" where
  "group_Y s =
     (case s of a # b # c # d # rest \<Rightarrow>
        (if isdecimal_char a \<and> isdecimal_char b \<and> isdecimal_char c \<and> isdecimal_char d
         then [([a, b, c, d], rest)] else [])
      | _ \<Rightarrow> [])"

definition dot :: "string \<Rightarrow> string list" where
  "dot s = (case s of c # rest \<Rightarrow> (if c = CHR ''.'' then [rest] else []) | _ \<Rightarrow> [])"

definition format_regex_match :: "string \<Rightarrow> (string \<times> string \<times> string \<times> string) option" where
  \<comment> \<open>the first match found by backtracking: the groups d, m, Y and the unmatched rest\<close>
  "format_regex_match s =
     (case List.bind (group_d s) (\<lambda>(d, r0). List.bind (dot r0) (\<lambda>r1.
             List.bind (group_m r1) (\<lambda>(m, r2). List.bind (dot r2) (\<lambda>r3.
               List.bind (group_Y r3) (\<lambda>(y, r4). [(d, m, y, r4)]))))) of
        [] \<Rightarrow> None
      | x # _ \<Rightarrow> Some x)"

definition strptime :: "string \<Rightarrow> error + date" where
  "strptime s =
     (case format_regex_match s of
        None \<Rightarrow> Inl (ValueError ''time data does not match format'')
      | Some (d, m, y, rest) \<Rightarrow>
          if rest \<noteq> [] then Inl (ValueError ''unconverted data remains'')
          else date_new (int_str y) (int_str m) (int_str d))"

section \<open>Fields\<close>

text \<open>
  \<open>Field\<close> and its subclasses \<open>Name\<close>, \<open>Phone\<close> and \<open>Birthday\<close>. An instance is
  its concrete class and its \<open>value\<close> attribute, which holds a \<open>str\<close> or a \<open>date\<close>.
\<close>

datatype field_class = NameC | PhoneC | BirthdayC

datatype field_value = Str string | Date date

record Field =
  cls :: field_class
  val :: field_value

definition Field_eq :: "Field \<Rightarrow> Field \<Rightarrow> bool" where
  \<comment> \<open>\<open>Field.__eq__\<close>: \<open>other\<close> is an instance of \<open>Field\<close> here, so the values are
      compared; a \<open>str\<close> and a \<open>date\<close> are never equal\<close>
  "Field_eq self other = (val self = val other)"

definition Name :: "string \<Rightarrow> error + Field" where
  "Name v =
     (if strip v = [] then Inl (ValueError ''Name field cannot be empty.'')
      else Inr \<lparr>cls = NameC, val = Str v\<rparr>)"

definition Phone :: "string \<Rightarrow> error + Field" where
  "Phone v =
     (if \<not> isdigit v \<or> length v \<noteq> 10
        then Inl (ValueError ''Phone number must consist of 10 digits.'')
      else Inr \<lparr>cls = PhoneC, val = Str v\<rparr>)"

definition Birthday :: "string \<Rightarrow> error + Field" where
  "Birthday v =
     (case strptime v of
        Inl e \<Rightarrow> Inl (ValueError ''Invalid date format. Use DD.MM.YYYY'')
      | Inr d \<Rightarrow> Inr \<lparr>cls = BirthdayC, val = Date d\<rparr>)"

definition isoformat :: "date \<Rightarrow> string" where
  \<comment> \<open>\<open>str\<close> of a date\<close>
  "isoformat d =
     zfill 4 (str_int (year d)) @ ''-'' @ zfill 2 (str_int (month d)) @ ''-'' @
     zfill 2 (str_int (day d))"

definition Field_str :: "bool \<Rightarrow> Field \<Rightarrow> error + string" where
  \<comment> \<open>\<open>__str__\<close>: \<open>Birthday\<close> overrides it with \<open>self.value.strftime("%d.%m.%Y")\<close>,
      which a \<open>str\<close> value does not have; the other classes return \<open>str(self.value)\<close>\<close>
  "Field_str pad_year f =
     (case (cls f, val f) of
        (BirthdayC, Date d) \<Rightarrow> Inr (strftime pad_year d)
      | (BirthdayC, Str s) \<Rightarrow> Inl (TypeError ''str has no strftime'')
      | (_, Str s) \<Rightarrow> Inr s
      | (_, Date d) \<Rightarrow> Inr (isoformat d))"

section \<open>Records\<close>

text \<open>
  A method that mutates \<open>self\<close> returns the exception it raised, if any, and the
  object after the call. Every \<open>raise\<close> of the source precedes the method's only
  assignment, so a call that raises leaves the object as it was.
\<close>

record Record =
  name :: Field
  phones :: "Field list"
  birthday :: "Field option"

definition Record_init :: "string \<Rightarrow> error + Record" where
  "Record_init n =
     (case Name n of
        Inl e \<Rightarrow> Inl e
      | Inr f \<Rightarrow> Inr \<lparr>name = f, phones = [], birthday = None\<rparr>)"

definition add_phone :: "string \<Rightarrow> Record \<Rightarrow> error option \<times> Record" where
  "add_phone phone self =
     (case Phone phone of
        Inl e \<Rightarrow> (Some e, self)
      | Inr p \<Rightarrow> (None, self\<lparr>phones := phones self @ [p]\<rparr>))"

definition remove_phone :: "string \<Rightarrow> Record \<Rightarrow> error option \<times> Record" where
  "remove_phone phone self =
     (None, self\<lparr>phones := filter (\<lambda>p. val p \<noteq> Str phone) (phones self)\<rparr>)"

fun index :: "Field list \<Rightarrow> Field \<Rightarrow> error + nat" where
  \<comment> \<open>\<open>list.index\<close>: the position of the first item that equals \<open>x\<close>\<close>
  "index [] x = Inl (ValueError ''x is not in list'')"
| "index (y # ys) x =
     (if Field_eq y x then Inr 0
      else (case index ys x of Inl e \<Rightarrow> Inl e | Inr i \<Rightarrow> Inr (Suc i)))"

definition edit_phone :: "string \<Rightarrow> string \<Rightarrow> Record \<Rightarrow> error option \<times> Record" where
  \<comment> \<open>every ValueError raised in the \<open>try\<close> block is replaced by the one of the
      \<open>except\<close> clause\<close>
  "edit_phone old_phone new_phone self =
     (case Phone old_phone of
        Inl e \<Rightarrow> (Some (ValueError ''Old phone number not found.''), self)
      | Inr old \<Rightarrow>
          (case index (phones self) old of
             Inl e \<Rightarrow> (Some (ValueError ''Old phone number not found.''), self)
           | Inr i \<Rightarrow>
               (case Phone new_phone of
                  Inl e \<Rightarrow> (Some (ValueError ''Old phone number not found.''), self)
                | Inr new \<Rightarrow> (None, self\<lparr>phones := (phones self)[i := new]\<rparr>))))"

definition find_phone :: "string \<Rightarrow> Record \<Rightarrow> Field option" where
  "find_phone phone self = find (\<lambda>p. val p = Str phone) (phones self)"

definition add_birthday :: "string \<Rightarrow> Record \<Rightarrow> error option \<times> Record" where
  "add_birthday b self =
     (case Birthday b of
        Inl e \<Rightarrow> (Some e, self)
      | Inr f \<Rightarrow> (None, self\<lparr>birthday := Some f\<rparr>))"

section \<open>The address book\<close>

text \<open>
  \<open>AddressBook\<close> is a \<open>UserDict\<close>: its \<open>data\<close> is a dictionary, which keeps its
  keys in insertion order. It is modelled as an association list; the keys are the
  \<open>value\<close> attributes of the names.
\<close>

type_synonym AddressBook = "(field_value \<times> Record) list"

definition dict_contains :: "field_value \<Rightarrow> AddressBook \<Rightarrow> bool" where
  "dict_contains k d = (k \<in> set (map fst d))"

definition dict_setitem :: "field_value \<Rightarrow> Record \<Rightarrow> AddressBook \<Rightarrow> AddressBook" where
  \<comment> \<open>\<open>d[k] = v\<close>: a present key keeps its position, a new key goes last\<close>
  "dict_setitem k v d =
     (if dict_contains k d then map (\<lambda>(k', v'). if k' = k then (k', v) else (k', v')) d
      else d @ [(k, v)])"

definition dict_get :: "field_value \<Rightarrow> AddressBook \<Rightarrow> Record option" where
  "dict_get k d = map_of d k"

definition dict_delitem :: "field_value \<Rightarrow> AddressBook \<Rightarrow> AddressBook" where
  "dict_delitem k d = filter (\<lambda>(k', v'). k' \<noteq> k) d"

definition dict_values :: "AddressBook \<Rightarrow> Record list" where
  "dict_values d = map snd d"

definition add_record :: "Record \<Rightarrow> AddressBook \<Rightarrow> error option \<times> AddressBook" where
  "add_record record self =
     (if dict_contains (val (name record)) self
        then (Some (ValueError ''Record with this name already exists.''), self)
      else (None, dict_setitem (val (name record)) record self))"

definition find_record :: "field_value \<Rightarrow> AddressBook \<Rightarrow> Record option" where
  \<comment> \<open>\<open>AddressBook.find\<close>\<close>
  "find_record n self = dict_get n self"

definition delete :: "field_value \<Rightarrow> AddressBook \<Rightarrow> error option \<times> AddressBook" where
  "delete n self =
     (if dict_contains n self then (None, dict_delitem n self)
      else (Some (KeyError ''Record not found.''), self))"

record upcoming =
  entry_name :: field_value
  congratulation_date :: string

definition congratulation :: "bool \<Rightarrow> date \<Rightarrow> error + string" where
  \<comment> \<open>the weekend adjustment of a birthday that is in the window\<close>
  "congratulation pad_year birthday_this_year =
     (if weekday birthday_this_year \<ge> 5 then
        (let days_ahead = 7 - weekday birthday_this_year in
         case add_days birthday_this_year (nat days_ahead) of
           Inl e \<Rightarrow> Inl e
         | Inr c \<Rightarrow> Inr (strftime pad_year c))
      else Inr (strftime pad_year birthday_this_year))"

definition loop_body ::
  "bool \<Rightarrow> date \<Rightarrow> int \<Rightarrow> Record \<Rightarrow> upcoming list \<Rightarrow> error + upcoming list" where
  \<comment> \<open>one iteration of the loop of \<open>get_upcoming_birthdays\<close>: the list after it\<close>
  "loop_body pad_year today days record upcoming_birthdays =
     (case birthday record of
        None \<Rightarrow> Inr upcoming_birthdays
      | Some b \<Rightarrow>
          (case val b of
             Str s \<Rightarrow> Inl (TypeError ''str.replace() takes no keyword arguments'')
           | Date bd \<Rightarrow>
               (case replace_year bd (year today) of
                  Inl e \<Rightarrow> Inl e
                | Inr this_year \<Rightarrow>
                    (case (if date_lt this_year today
                           then replace_year this_year (year today + 1)
                           else Inr this_year) of
                       Inl e \<Rightarrow> Inl e
                     | Inr birthday_this_year \<Rightarrow>
                         if 0 \<le> sub_days birthday_this_year today
                            \<and> sub_days birthday_this_year today \<le> days
                         then
                           (case congratulation pad_year birthday_this_year of
                              Inl e \<Rightarrow> Inl e
                            | Inr shown \<Rightarrow>
                                Inr (upcoming_birthdays @
                                  [\<lparr>entry_name = val (name record),
                                    congratulation_date = shown\<rparr>]))
                         else Inr upcoming_birthdays))))"

fun loop :: "bool \<Rightarrow> date \<Rightarrow> int \<Rightarrow> Record list \<Rightarrow> upcoming list \<Rightarrow> error + upcoming list" where
  "loop pad_year today days [] upcoming_birthdays = Inr upcoming_birthdays"
| "loop pad_year today days (record # records) upcoming_birthdays =
     (case loop_body pad_year today days record upcoming_birthdays of
        Inl e \<Rightarrow> Inl e
      | Inr upcoming_birthdays' \<Rightarrow> loop pad_year today days records upcoming_birthdays')"

definition get_upcoming_birthdays ::
  "bool \<Rightarrow> date \<Rightarrow> int \<Rightarrow> AddressBook \<Rightarrow> error + upcoming list" where
  \<comment> \<open>\<open>today\<close> is what \<open>date.today()\<close> returns\<close>
  "get_upcoming_birthdays pad_year today days self =
     loop pad_year today days (dict_values self) []"

section \<open>The vocabulary of the specification\<close>

subsection \<open>Kinds of error\<close>

text \<open>
  The source raises \<open>ValueError\<close> and \<open>KeyError\<close> only; the specification names three
  kinds of error. A raised exception is of a kind by the message it carries: the
  messages of the three validating constructors, of the two look-ups that find nothing,
  and of \<open>add_record\<close>.
\<close>

definition ValidationError :: "error \<Rightarrow> bool" where
  "ValidationError e =
     (e = ValueError ''Name field cannot be empty.''
      \<or> e = ValueError ''Phone number must consist of 10 digits.''
      \<or> e = ValueError ''Invalid date format. Use DD.MM.YYYY'')"

definition NotFoundError :: "error \<Rightarrow> bool" where
  "NotFoundError e =
     (e = ValueError ''Old phone number not found.'' \<or> e = KeyError ''Record not found.'')"

definition DuplicateError :: "error \<Rightarrow> bool" where
  "DuplicateError e = (e = ValueError ''Record with this name already exists.'')"

subsection \<open>Reachable states\<close>

text \<open>
  The operations on a contact, and the states a caller can bring a contact and an
  address book into. A caller builds a record with the constructor and the four
  mutating methods, adds it to the book, deletes entries, and calls the mutating
  methods on a record the book holds (the value of \<open>find\<close> is the stored object
  itself, so the call changes the entry in place). A call that raises leaves the
  state it ran in.
\<close>

datatype contact_op =
    AddPhone string
  | RemovePhone string
  | EditPhone string string
  | AddBirthday string

fun apply_op :: "contact_op \<Rightarrow> Record \<Rightarrow> Record" where
  "apply_op (AddPhone p) r = snd (add_phone p r)"
| "apply_op (RemovePhone p) r = snd (remove_phone p r)"
| "apply_op (EditPhone old new) r = snd (edit_phone old new r)"
| "apply_op (AddBirthday b) r = snd (add_birthday b r)"

inductive built :: "Record \<Rightarrow> bool" where
  constructed: "Record_init n = Inr r \<Longrightarrow> built r"
| called: "built r \<Longrightarrow> built (apply_op c r)"

inductive reachable :: "AddressBook \<Rightarrow> bool" where
  empty: "reachable []"
| added: "reachable book \<Longrightarrow> built r \<Longrightarrow> reachable (snd (add_record r book))"
| deleted: "reachable book \<Longrightarrow> reachable (snd (delete n book))"
| changed: "reachable book \<Longrightarrow> find_record n book = Some r \<Longrightarrow>
            reachable (dict_setitem n (apply_op c r) book)"

subsection \<open>Upcoming birthdays, in the words of the specification\<close>

definition dmy :: "char \<Rightarrow> char \<Rightarrow> char \<Rightarrow> char \<Rightarrow> char \<Rightarrow> char \<Rightarrow> char \<Rightarrow> char \<Rightarrow> date" where
  \<comment> \<open>the date that the text \<open>DD.MM.YYYY\<close> with these eight digits denotes\<close>
  "dmy d1 d2 m1 m2 y1 y2 y3 y4 =
     \<lparr>year = int (1000 * digit_val y1 + 100 * digit_val y2 + 10 * digit_val y3 + digit_val y4),
      month = int (10 * digit_val m1 + digit_val m2),
      day = int (10 * digit_val d1 + digit_val d2)\<rparr>"









subsection \<open>Invariants of the reachable states\<close>

definition validated_phone :: "Field \<Rightarrow> bool" where
  \<comment> \<open>the field is what the constructor \<open>Phone\<close> returns for the string it holds\<close>
  "validated_phone p = (case val p of Str s \<Rightarrow> Phone s = Inr p | Date d \<Rightarrow> False)"

definition keys_are_names :: "AddressBook \<Rightarrow> bool" where
  "keys_are_names book = list_all (\<lambda>(k, r). val (name r) = k) book"

definition phones_validated :: "Record \<Rightarrow> bool" where
  "phones_validated r = list_all validated_phone (phones r)"

definition book_phones_validated :: "AddressBook \<Rightarrow> bool" where
  "book_phones_validated book = list_all phones_validated (dict_values book)"



section \<open>Properties of the fields\<close>

lemma isdecimal_isdigit: "isdecimal_char c \<Longrightarrow> isdigit_char c"
  by (simp add: isdigit_char_def)

lemma Phone_iff:
  "Phone s =
     (if length s = 10 \<and> list_all isdigit_char s then Inr \<lparr>cls = PhoneC, val = Str s\<rparr>
      else Inl (ValueError ''Phone number must consist of 10 digits.''))"
  by (auto simp: Phone_def isdigit_def)

lemma Name_val: "Name s = Inr a \<Longrightarrow> a = \<lparr>cls = NameC, val = Str s\<rparr>"
  by (auto simp: Name_def split: if_splits)

lemma Phone_val: "Phone s = Inr a \<Longrightarrow> a = \<lparr>cls = PhoneC, val = Str s\<rparr>"
  by (auto simp: Phone_def split: if_splits)

lemma Birthday_val: "Birthday s = Inr a \<Longrightarrow> \<exists>d. a = \<lparr>cls = BirthdayC, val = Date d\<rparr>"
  by (auto simp: Birthday_def split: sum.splits)

text \<open>
  C4. A phone number is to consist of exactly 10 decimal digits, and every other string
  is to be refused. The check of \<open>Phone\<close> is \<open>value.isdigit()\<close>, which also holds of
  digits that are not decimal digits. At the string of ten characters U+00B2
  (superscript two), which contains no decimal digit, \<open>Phone\<close> raises nothing and
  returns a phone holding that string.
\<close>

theorem Phone_accepts_superscript_two:
  "\<not> list_all isdecimal_char (replicate 10 (CHR 0xB2))
   \<and> length (replicate 10 (CHR 0xB2)) = 10
   \<and> Phone (replicate 10 (CHR 0xB2))
       = Inr \<lparr>cls = PhoneC, val = Str (replicate 10 (CHR 0xB2))\<rparr>"
  by (simp add: Phone_def isdigit_def isdigit_char_def isdecimal_char_def code_point_def
      list_all_iff)

theorem Phone_accepts_superscript_two_witness:
  "\<exists>p. Phone (replicate 10 (CHR 0xB2)) = Inr p \<and> val p = Str (replicate 10 (CHR 0xB2))"
  using Phone_accepts_superscript_two by simp

text \<open>
  C7, as the code has it. Two fields are equal exactly when their values are equal; the
  concrete class is not compared. So a \<open>Name\<close> and a \<open>Phone\<close>, which are of different
  classes, are equal exactly when they were made from the same string, and a
  \<open>Birthday\<close>, whose value is a date, equals no \<open>Name\<close> and no \<open>Phone\<close>.
\<close>

theorem Field_eq_by_value:
  "(Field_eq a b \<longleftrightarrow> val a = val b)
   \<and> (Name s = Inr a \<and> Phone t = Inr b \<longrightarrow> cls a \<noteq> cls b \<and> (Field_eq a b \<longleftrightarrow> s = t))
   \<and> (Birthday u = Inr a \<and> (Name t = Inr b \<or> Phone t = Inr b) \<longrightarrow>
        \<not> Field_eq a b \<and> \<not> Field_eq b a)"
  by (auto simp: Field_eq_def dest!: Name_val Phone_val Birthday_val)

theorem Field_eq_by_value_witness:
  "Name ''0501234567'' = Inr \<lparr>cls = NameC, val = Str ''0501234567''\<rparr>
   \<and> Phone ''0501234567'' = Inr \<lparr>cls = PhoneC, val = Str ''0501234567''\<rparr>
   \<and> Field_eq \<lparr>cls = NameC, val = Str ''0501234567''\<rparr> \<lparr>cls = PhoneC, val = Str ''0501234567''\<rparr>"
proof -
  have n: "Name ''0501234567'' = Inr \<lparr>cls = NameC, val = Str ''0501234567''\<rparr>"
    by (simp add: Name_def strip_def isspace_char_def code_point_def)
  have p: "Phone ''0501234567'' = Inr \<lparr>cls = PhoneC, val = Str ''0501234567''\<rparr>"
    by (simp add: Phone_iff isdigit_char_def isdecimal_char_def code_point_def)
  show ?thesis
    using n p
      Field_eq_by_value [of "\<lparr>cls = NameC, val = Str ''0501234567''\<rparr>"
        "\<lparr>cls = PhoneC, val = Str ''0501234567''\<rparr>" "''0501234567''" "''0501234567''"]
    by blast
qed

text \<open>
  C7 as stated fails: a \<open>Name\<close> and a \<open>Phone\<close> made from the same string are of
  different classes and are equal.
\<close>

theorem Field_eq_counterexample:
  "Name ''0501234567'' = Inr \<lparr>cls = NameC, val = Str ''0501234567''\<rparr>
   \<and> Phone ''0501234567'' = Inr \<lparr>cls = PhoneC, val = Str ''0501234567''\<rparr>
   \<and> NameC \<noteq> PhoneC
   \<and> Field_eq \<lparr>cls = NameC, val = Str ''0501234567''\<rparr>
        \<lparr>cls = PhoneC, val = Str ''0501234567''\<rparr>"
  by (simp add: Name_def Phone_def Field_eq_def strip_def isspace_char_def isdigit_def
      isdigit_char_def isdecimal_char_def code_point_def)

section \<open>Properties of the address book and of its records\<close>

lemma map_of_append_new: "k \<notin> fst ` set d \<Longrightarrow> map_of (d @ [(k, v)]) k = Some v"
  by (induction d) auto

text \<open>
  C6. Adding a record whose name is not a key of the book succeeds, and \<open>find\<close> on
  that name then returns the record that was added. Adding a record whose name is a key
  of the book raises the error of kind DuplicateError and leaves the book, and so the
  entry under that name, as it was.
\<close>

theorem add_record_find:
  "(\<not> dict_contains (val (name r)) book \<longrightarrow>
      fst (add_record r book) = None
      \<and> find_record (val (name r)) (snd (add_record r book)) = Some r)
   \<and> (dict_contains (val (name r)) book \<longrightarrow>
      (\<exists>e. fst (add_record r book) = Some e \<and> DuplicateError e)
      \<and> snd (add_record r book) = book)"
  by (auto simp: add_record_def find_record_def dict_get_def dict_setitem_def dict_contains_def
      DuplicateError_def map_of_append_new simp del: map_of_append)

lemma Record_init_Alice:
  "Record_init ''Alice''
     = Inr \<lparr>name = \<lparr>cls = NameC, val = Str ''Alice''\<rparr>, phones = [], birthday = None\<rparr>"
  by (simp add: Record_init_def Name_def strip_def isspace_char_def code_point_def)

theorem add_record_find_witness:
  "find_record (Str ''Alice'')
     (snd (add_record \<lparr>name = \<lparr>cls = NameC, val = Str ''Alice''\<rparr>, phones = [], birthday = None\<rparr> []))
     = Some \<lparr>name = \<lparr>cls = NameC, val = Str ''Alice''\<rparr>, phones = [], birthday = None\<rparr>
   \<and> snd (add_record \<lparr>name = \<lparr>cls = NameC, val = Str ''Alice''\<rparr>, phones = [], birthday = None\<rparr>
        [(Str ''Alice'',
          \<lparr>name = \<lparr>cls = NameC, val = Str ''Alice''\<rparr>,
           phones = [\<lparr>cls = PhoneC, val = Str ''0501234567''\<rparr>], birthday = None\<rparr>)])
     = [(Str ''Alice'',
          \<lparr>name = \<lparr>cls = NameC, val = Str ''Alice''\<rparr>,
           phones = [\<lparr>cls = PhoneC, val = Str ''0501234567''\<rparr>], birthday = None\<rparr>)]"
proof -
  let ?r = "\<lparr>name = \<lparr>cls = NameC, val = Str ''Alice''\<rparr>, phones = [], birthday = None\<rparr>"
  let ?b = "[(Str ''Alice'',
          \<lparr>name = \<lparr>cls = NameC, val = Str ''Alice''\<rparr>,
           phones = [\<lparr>cls = PhoneC, val = Str ''0501234567''\<rparr>], birthday = None\<rparr>)]"
  have a: "\<not> dict_contains (val (name ?r)) []" by (simp add: dict_contains_def)
  have b: "dict_contains (val (name ?r)) ?b" by (simp add: dict_contains_def)
  show ?thesis
    using add_record_find [of ?r "[]"] add_record_find [of ?r ?b] a b by simp
qed

lemma index_None: "(\<forall>p\<in>set ps. val p \<noteq> val x) \<Longrightarrow> \<exists>e. index ps x = Inl e"
  by (induction ps) (auto simp: Field_eq_def)

lemma index_Some:
  "\<exists>p\<in>set ps. val p = val x \<Longrightarrow>
   \<exists>i. index ps x = Inr i \<and> i < length ps \<and> val (ps ! i) = val x \<and> (\<forall>j<i. val (ps ! j) \<noteq> val x)"
proof (induction ps)
  case Nil
  then show ?case by simp
next
  case (Cons p ps)
  show ?case
  proof (cases "val p = val x")
    case True
    then show ?thesis by (simp add: Field_eq_def)
  next
    case False
    with Cons.prems have "\<exists>q\<in>set ps. val q = val x" by auto
    from Cons.IH [OF this] obtain i where
      i: "index ps x = Inr i" "i < length ps" "val (ps ! i) = val x" "\<forall>j<i. val (ps ! j) \<noteq> val x"
      by blast
    have "\<forall>j<Suc i. val ((p # ps) ! j) \<noteq> val x"
      using False i(4) by (auto simp: nth_Cons split: nat.splits)
    with False i show ?thesis by (auto simp: Field_eq_def)
  qed
qed

lemma edit_phone_absent:
  assumes "\<forall>p\<in>set (phones r). val p \<noteq> Str old"
  shows "edit_phone old new r = (Some (ValueError ''Old phone number not found.''), r)"
proof (cases "Phone old")
  case (Inl e)
  then show ?thesis by (simp add: edit_phone_def)
next
  case (Inr po)
  then have "val po = Str old" by (auto dest: Phone_val)
  with assms have "\<forall>p\<in>set (phones r). val p \<noteq> val po" by simp
  from index_None [OF this] obtain e where "index (phones r) po = Inl e" by blast
  with Inr show ?thesis by (simp add: edit_phone_def)
qed

lemma edit_phone_invalid_old:
  "Phone old = Inl e \<Longrightarrow>
   edit_phone old new r = (Some (ValueError ''Old phone number not found.''), r)"
  by (simp add: edit_phone_def)

text \<open>
  C8. When both strings are valid phones and some entry of the contact's phone list has
  the value \<open>old\<close>, \<open>edit_phone\<close> succeeds and the new list is the old one with the
  entry at the first such position replaced by the new phone: the position, the length,
  and every other entry stay. When no entry has the value \<open>old\<close>, \<open>edit_phone\<close>
  raises an error of kind NotFoundError and the contact is as it was.
\<close>

theorem edit_phone_first_match:
  "(Phone old = Inr po \<and> Phone new = Inr pn \<and> (\<exists>p\<in>set (phones r). val p = Str old) \<longrightarrow>
      (\<exists>i<length (phones r).
          val (phones r ! i) = Str old \<and> (\<forall>j<i. val (phones r ! j) \<noteq> Str old)
          \<and> edit_phone old new r = (None, r\<lparr>phones := (phones r)[i := pn]\<rparr>)))
   \<and> ((\<forall>p\<in>set (phones r). val p \<noteq> Str old) \<longrightarrow>
      (\<exists>e. edit_phone old new r = (Some e, r) \<and> NotFoundError e))"
proof (intro conjI impI)
  assume a: "Phone old = Inr po \<and> Phone new = Inr pn \<and> (\<exists>p\<in>set (phones r). val p = Str old)"
  then have po: "val po = Str old" by (auto dest: Phone_val)
  with a have "\<exists>p\<in>set (phones r). val p = val po" by simp
  from index_Some [OF this] obtain i where
    i: "index (phones r) po = Inr i" "i < length (phones r)" "val (phones r ! i) = val po"
       "\<forall>j<i. val (phones r ! j) \<noteq> val po"
    by blast
  have "edit_phone old new r = (None, r\<lparr>phones := (phones r)[i := pn]\<rparr>)"
    using a i(1) by (simp add: edit_phone_def)
  with i po show "\<exists>i<length (phones r).
          val (phones r ! i) = Str old \<and> (\<forall>j<i. val (phones r ! j) \<noteq> Str old)
          \<and> edit_phone old new r = (None, r\<lparr>phones := (phones r)[i := pn]\<rparr>)"
    by auto
next
  assume "\<forall>p\<in>set (phones r). val p \<noteq> Str old"
  then show "\<exists>e. edit_phone old new r = (Some e, r) \<and> NotFoundError e"
    by (simp add: edit_phone_absent NotFoundError_def)
qed

lemma Phone_examples:
  "Phone ''0501234567'' = Inr \<lparr>cls = PhoneC, val = Str ''0501234567''\<rparr>"
  "Phone ''0670000000'' = Inr \<lparr>cls = PhoneC, val = Str ''0670000000''\<rparr>"
  "Phone ''0999999999'' = Inr \<lparr>cls = PhoneC, val = Str ''0999999999''\<rparr>"
  "Phone ''12345'' = Inl (ValueError ''Phone number must consist of 10 digits.'')"
  "Phone ''abc'' = Inl (ValueError ''Phone number must consist of 10 digits.'')"
  by (simp_all add: Phone_iff isdigit_char_def isdecimal_char_def code_point_def)

theorem edit_phone_first_match_witness:
  "edit_phone ''0501234567'' ''0999999999''
     \<lparr>name = \<lparr>cls = NameC, val = Str ''Alice''\<rparr>,
      phones = [\<lparr>cls = PhoneC, val = Str ''0670000000''\<rparr>, \<lparr>cls = PhoneC, val = Str ''0501234567''\<rparr>,
                \<lparr>cls = PhoneC, val = Str ''0501234567''\<rparr>],
      birthday = None\<rparr>
   = (None,
     \<lparr>name = \<lparr>cls = NameC, val = Str ''Alice''\<rparr>,
      phones = [\<lparr>cls = PhoneC, val = Str ''0670000000''\<rparr>, \<lparr>cls = PhoneC, val = Str ''0999999999''\<rparr>,
                \<lparr>cls = PhoneC, val = Str ''0501234567''\<rparr>],
      birthday = None\<rparr>)
   \<and> (\<exists>e. edit_phone ''0501234567'' ''0999999999''
         \<lparr>name = \<lparr>cls = NameC, val = Str ''Alice''\<rparr>,
          phones = [\<lparr>cls = PhoneC, val = Str ''0670000000''\<rparr>], birthday = None\<rparr>
        = (Some e,
         \<lparr>name = \<lparr>cls = NameC, val = Str ''Alice''\<rparr>,
          phones = [\<lparr>cls = PhoneC, val = Str ''0670000000''\<rparr>], birthday = None\<rparr>)
        \<and> NotFoundError e)"
proof -
  let ?r = "\<lparr>name = \<lparr>cls = NameC, val = Str ''Alice''\<rparr>,
      phones = [\<lparr>cls = PhoneC, val = Str ''0670000000''\<rparr>, \<lparr>cls = PhoneC, val = Str ''0501234567''\<rparr>,
                \<lparr>cls = PhoneC, val = Str ''0501234567''\<rparr>],
      birthday = None\<rparr>"
  let ?q = "\<lparr>name = \<lparr>cls = NameC, val = Str ''Alice''\<rparr>,
          phones = [\<lparr>cls = PhoneC, val = Str ''0670000000''\<rparr>], birthday = None\<rparr>"
  let ?pn = "\<lparr>cls = PhoneC, val = Str ''0999999999''\<rparr>"
  have h: "Phone ''0501234567'' = Inr \<lparr>cls = PhoneC, val = Str ''0501234567''\<rparr>
      \<and> Phone ''0999999999'' = Inr ?pn \<and> (\<exists>p\<in>set (phones ?r). val p = Str ''0501234567'')"
    by (simp add: Phone_examples)
  from edit_phone_first_match [of "''0501234567''" _ "''0999999999''" ?pn ?r] h
  obtain i where i: "i < length (phones ?r)" "val (phones ?r ! i) = Str ''0501234567''"
    "\<forall>j<i. val (phones ?r ! j) \<noteq> Str ''0501234567''"
    "edit_phone ''0501234567'' ''0999999999'' ?r = (None, ?r\<lparr>phones := (phones ?r)[i := ?pn]\<rparr>)"
    by blast
  have "i = 1"
  proof -
    have "\<not> 1 < i"
    proof
      assume "1 < i"
      with i(3) have "val (phones ?r ! 1) \<noteq> Str ''0501234567''" by blast
      then show False by simp
    qed
    moreover have "i \<noteq> 0"
    proof
      assume "i = 0"
      with i(2) show False by simp
    qed
    ultimately show ?thesis by simp
  qed
  with i(4) have first: "edit_phone ''0501234567'' ''0999999999'' ?r
      = (None, ?r\<lparr>phones := (phones ?r)[1 := ?pn]\<rparr>)" by simp
  have g: "\<forall>p\<in>set (phones ?q). val p \<noteq> Str ''0501234567''" by simp
  from edit_phone_first_match [of "''0501234567''" _ "''0999999999''" _ ?q] g
  have second: "\<exists>e. edit_phone ''0501234567'' ''0999999999'' ?q = (Some e, ?q) \<and> NotFoundError e"
    by blast
  from first second show ?thesis by simp
qed

text \<open>
  C2, as the code has it. \<open>edit_phone\<close> raises the error "Old phone number not found."
  and leaves the contact as it was whenever \<open>old\<close> is not a valid phone or no entry
  has the value \<open>old\<close>: an invalid \<open>old\<close> is reported as not found, not as a
  validation error. It also raises, and leaves the contact as it was, whenever \<open>new\<close>
  is not a valid phone.
\<close>

theorem edit_phone_errors:
  "((\<exists>e. Phone old = Inl e) \<or> (\<forall>p\<in>set (phones r). val p \<noteq> Str old) \<longrightarrow>
      edit_phone old new r = (Some (ValueError ''Old phone number not found.''), r))
   \<and> ((\<exists>e. Phone new = Inl e) \<longrightarrow>
      (\<exists>e. fst (edit_phone old new r) = Some e) \<and> snd (edit_phone old new r) = r)"
proof -
  have a: "(\<exists>e. Phone old = Inl e) \<or> (\<forall>p\<in>set (phones r). val p \<noteq> Str old) \<Longrightarrow>
      edit_phone old new r = (Some (ValueError ''Old phone number not found.''), r)"
    using edit_phone_absent [of r old new] edit_phone_invalid_old [of old _ new r] by blast
  have b: "\<exists>e. Phone new = Inl e \<Longrightarrow>
      (\<exists>e. fst (edit_phone old new r) = Some e) \<and> snd (edit_phone old new r) = r"
    by (auto simp: edit_phone_def split: sum.splits)
  from a b show ?thesis by blast
qed

theorem edit_phone_errors_witness:
  "edit_phone ''12345'' ''0999999999''
     \<lparr>name = \<lparr>cls = NameC, val = Str ''Alice''\<rparr>,
      phones = [\<lparr>cls = PhoneC, val = Str ''0501234567''\<rparr>], birthday = None\<rparr>
   = (Some (ValueError ''Old phone number not found.''),
     \<lparr>name = \<lparr>cls = NameC, val = Str ''Alice''\<rparr>,
      phones = [\<lparr>cls = PhoneC, val = Str ''0501234567''\<rparr>], birthday = None\<rparr>)
   \<and> (\<exists>e. fst (edit_phone ''0501234567'' ''abc''
         \<lparr>name = \<lparr>cls = NameC, val = Str ''Alice''\<rparr>,
          phones = [\<lparr>cls = PhoneC, val = Str ''0501234567''\<rparr>], birthday = None\<rparr>) = Some e)"
proof -
  let ?r = "\<lparr>name = \<lparr>cls = NameC, val = Str ''Alice''\<rparr>,
      phones = [\<lparr>cls = PhoneC, val = Str ''0501234567''\<rparr>], birthday = None\<rparr>"
  have a: "\<exists>e. Phone ''12345'' = Inl e" by (simp add: Phone_examples)
  have b: "\<exists>e. Phone ''abc'' = Inl e" by (simp add: Phone_examples)
  show ?thesis
    using edit_phone_errors [of "''12345''" ?r "''0999999999''"]
      edit_phone_errors [of "''0501234567''" ?r "''abc''"] a b
    by blast
qed

text \<open>
  C2 as stated fails: the old number \<open>12345\<close> is not a valid phone, and the error
  raised is the one of the \<open>except\<close> clause, which is not a validation error.
\<close>

theorem edit_phone_invalid_old_counterexample:
  "Phone ''12345'' = Inl (ValueError ''Phone number must consist of 10 digits.'')
   \<and> edit_phone ''12345'' ''0999999999''
       \<lparr>name = \<lparr>cls = NameC, val = Str ''Alice''\<rparr>,
        phones = [\<lparr>cls = PhoneC, val = Str ''0501234567''\<rparr>], birthday = None\<rparr>
     = (Some (ValueError ''Old phone number not found.''),
       \<lparr>name = \<lparr>cls = NameC, val = Str ''Alice''\<rparr>,
        phones = [\<lparr>cls = PhoneC, val = Str ''0501234567''\<rparr>], birthday = None\<rparr>)
   \<and> \<not> ValidationError (ValueError ''Old phone number not found.'')"
  by (simp add: Phone_examples edit_phone_def ValidationError_def)

text \<open>
  The \<open>except\<close> clause also replaces the error of \<open>Phone(new_phone)\<close>: an invalid
  new number is reported as "Old phone number not found." even when the old number is
  in the list.
\<close>

lemma edit_phone_invalid_new_reported_not_found:
  "edit_phone ''0501234567'' ''abc''
       \<lparr>name = \<lparr>cls = NameC, val = Str ''Alice''\<rparr>,
        phones = [\<lparr>cls = PhoneC, val = Str ''0501234567''\<rparr>], birthday = None\<rparr>
     = (Some (ValueError ''Old phone number not found.''),
       \<lparr>name = \<lparr>cls = NameC, val = Str ''Alice''\<rparr>,
        phones = [\<lparr>cls = PhoneC, val = Str ''0501234567''\<rparr>], birthday = None\<rparr>)"
  by (simp add: Phone_examples edit_phone_def Field_eq_def)

section \<open>Invariants\<close>

lemma apply_op_name: "name (apply_op c r) = name r"
  by (cases c)
    (auto simp: add_phone_def remove_phone_def edit_phone_def add_birthday_def split: sum.splits)

lemma find_record_mem: "find_record n book = Some r \<Longrightarrow> (n, r) \<in> set book"
  by (simp add: find_record_def dict_get_def map_of_SomeD)

lemma find_record_contains: "find_record n book = Some r \<Longrightarrow> dict_contains n book"
  by (auto simp: dict_contains_def dest!: find_record_mem intro: rev_image_eqI)

lemma keys_are_names_add_record:
  "keys_are_names book \<Longrightarrow> keys_are_names (snd (add_record r book))"
  by (auto simp: keys_are_names_def add_record_def dict_setitem_def list_all_iff)

lemma keys_are_names_delete: "keys_are_names book \<Longrightarrow> keys_are_names (snd (delete n book))"
  by (auto simp: keys_are_names_def delete_def dict_delitem_def list_all_iff)

lemma keys_are_names_replace:
  "keys_are_names book \<Longrightarrow> val (name r') = n \<Longrightarrow>
   keys_are_names (map (\<lambda>(k', v'). if k' = n then (k', r') else (k', v')) book)"
  by (induction book) (auto simp: keys_are_names_def split: if_splits)

lemma keys_are_names_changed:
  assumes "keys_are_names book" "find_record n book = Some r"
  shows "keys_are_names (dict_setitem n (apply_op c r) book)"
proof -
  from assms have "val (name r) = n"
    by (auto simp: keys_are_names_def list_all_iff dest!: find_record_mem)
  then have "val (name (apply_op c r)) = n" by (simp add: apply_op_name)
  with assms(1) have "keys_are_names
      (map (\<lambda>(k', v'). if k' = n then (k', apply_op c r) else (k', v')) book)"
    by (rule keys_are_names_replace)
  with assms(2) show ?thesis by (simp add: dict_setitem_def find_record_contains)
qed

lemma reachable_keys_are_names: "reachable book \<Longrightarrow> keys_are_names book"
proof (induction rule: reachable.induct)
  case empty
  show ?case by (simp add: keys_are_names_def)
next
  case (added book r)
  then show ?case by (simp add: keys_are_names_add_record)
next
  case (deleted book n)
  then show ?case by (simp add: keys_are_names_delete)
next
  case (changed book n r c)
  then show ?case by (simp add: keys_are_names_changed)
qed

text \<open>
  C9. In every reachable state of the address book each key is the value of the name of
  the record stored under it. No method of a record changes the record's name, adding
  a record puts it under the value of its own name after the entries already there, and
  deleting leaves only entries that were there before.
\<close>

theorem keys_equal_names:
  "(reachable book \<longrightarrow> (\<forall>(k, r)\<in>set book. val (name r) = k))
   \<and> name (apply_op c r) = name r
   \<and> (fst (add_record r book) = None \<longrightarrow>
        snd (add_record r book) = book @ [(val (name r), r)])
   \<and> set (snd (delete n book)) \<subseteq> set book"
proof -
  have "reachable book \<longrightarrow> (\<forall>(k, r)\<in>set book. val (name r) = k)"
    using reachable_keys_are_names [of book] by (auto simp: keys_are_names_def list_all_iff)
  moreover have "fst (add_record r book) = None \<longrightarrow>
        snd (add_record r book) = book @ [(val (name r), r)]"
    by (simp add: add_record_def dict_setitem_def)
  moreover have "set (snd (delete n book)) \<subseteq> set book"
    by (auto simp: delete_def dict_delitem_def)
  ultimately show ?thesis by (simp add: apply_op_name)
qed

lemma validated_phone_Phone: "Phone s = Inr p \<Longrightarrow> validated_phone p"
  by (frule Phone_val) (simp add: validated_phone_def)

lemma phones_validated_apply_op: "phones_validated r \<Longrightarrow> phones_validated (apply_op c r)"
proof (cases c)
  case (AddPhone p)
  assume "phones_validated r"
  with AddPhone show ?thesis
    by (auto simp: phones_validated_def add_phone_def list_all_iff validated_phone_Phone
        split: sum.splits)
next
  case (RemovePhone p)
  assume "phones_validated r"
  with RemovePhone show ?thesis
    by (auto simp: phones_validated_def remove_phone_def list_all_iff)
next
  case (EditPhone old new)
  assume "phones_validated r"
  with EditPhone show ?thesis
    by (auto simp: phones_validated_def edit_phone_def list_all_iff validated_phone_Phone
        split: sum.splits dest!: set_update_subset_insert [THEN subsetD])
next
  case (AddBirthday b)
  assume "phones_validated r"
  with AddBirthday show ?thesis
    by (auto simp: phones_validated_def add_birthday_def split: sum.splits)
qed

lemma built_phones_validated: "built r \<Longrightarrow> phones_validated r"
proof (induction rule: built.induct)
  case (constructed n r)
  then show ?case
    by (auto simp: Record_init_def phones_validated_def split: sum.splits)
next
  case (called r c)
  then show ?case by (simp add: phones_validated_apply_op)
qed

lemma reachable_phones_validated: "reachable book \<Longrightarrow> book_phones_validated book"
proof (induction rule: reachable.induct)
  case empty
  show ?case by (simp add: book_phones_validated_def dict_values_def)
next
  case (added book r)
  then show ?case
    by (auto simp: book_phones_validated_def dict_values_def add_record_def dict_setitem_def
        list_all_iff built_phones_validated)
next
  case (deleted book n)
  then show ?case
    by (auto simp: book_phones_validated_def dict_values_def delete_def dict_delitem_def
        list_all_iff)
next
  case (changed book n r c)
  from changed.hyps(2) have "(n, r) \<in> set book" by (rule find_record_mem)
  with changed.IH have "phones_validated r"
    by (auto simp: book_phones_validated_def dict_values_def list_all_iff)
  then have "phones_validated (apply_op c r)" by (rule phones_validated_apply_op)
  with changed.IH changed.hyps(2) show ?case
    by (auto simp: book_phones_validated_def dict_values_def dict_setitem_def list_all_iff
        find_record_contains)
qed

text \<open>
  C10. In every reachable state of the address book every entry of every record's phone
  list is a phone that the constructor \<open>Phone\<close> returns for the string it holds: a
  string of 10 characters that passed the digit check. Each method of a record keeps
  this property of the phone list.
\<close>

theorem stored_phones_validated:
  "(reachable book \<longrightarrow>
      (\<forall>(k, r)\<in>set book. \<forall>p\<in>set (phones r).
          \<exists>s. val p = Str s \<and> Phone s = Inr p \<and> length s = 10 \<and> list_all isdigit_char s))
   \<and> (phones_validated r \<longrightarrow> phones_validated (apply_op c r))"
proof -
  have v: "validated_phone p \<Longrightarrow>
      \<exists>s. val p = Str s \<and> Phone s = Inr p \<and> length s = 10 \<and> list_all isdigit_char s" for p
    by (cases "val p") (auto simp: validated_phone_def Phone_iff split: if_splits)
  have "reachable book \<longrightarrow>
      (\<forall>(k, r)\<in>set book. \<forall>p\<in>set (phones r).
          \<exists>s. val p = Str s \<and> Phone s = Inr p \<and> length s = 10 \<and> list_all isdigit_char s)"
  proof
    assume "reachable book"
    then have "book_phones_validated book" by (rule reachable_phones_validated)
    then have "\<forall>(k, r)\<in>set book. \<forall>p\<in>set (phones r). validated_phone p"
      by (auto simp: book_phones_validated_def dict_values_def phones_validated_def list_all_iff)
    with v show "\<forall>(k, r)\<in>set book. \<forall>p\<in>set (phones r).
          \<exists>s. val p = Str s \<and> Phone s = Inr p \<and> length s = 10 \<and> list_all isdigit_char s"
      by blast
  qed
  then show ?thesis by (simp add: phones_validated_apply_op)
qed

lemma built_Alice:
  "built \<lparr>name = \<lparr>cls = NameC, val = Str ''Alice''\<rparr>,
          phones = [\<lparr>cls = PhoneC, val = Str ''0501234567''\<rparr>], birthday = None\<rparr>"
proof -
  have "built (apply_op (AddPhone ''0501234567'')
      \<lparr>name = \<lparr>cls = NameC, val = Str ''Alice''\<rparr>, phones = [], birthday = None\<rparr>)"
    by (rule built.called, rule built.constructed, rule Record_init_Alice)
  then show ?thesis by (simp add: add_phone_def Phone_examples)
qed

lemma reachable_Alice:
  "reachable [(Str ''Alice'',
     \<lparr>name = \<lparr>cls = NameC, val = Str ''Alice''\<rparr>,
      phones = [\<lparr>cls = PhoneC, val = Str ''0501234567''\<rparr>], birthday = None\<rparr>)]"
  using reachable.added [OF reachable.empty built_Alice]
  by (simp add: add_record_def dict_contains_def dict_setitem_def)

theorem keys_equal_names_witness:
  "val (name \<lparr>name = \<lparr>cls = NameC, val = Str ''Alice''\<rparr>,
      phones = [\<lparr>cls = PhoneC, val = Str ''0501234567''\<rparr>], birthday = None\<rparr>) = Str ''Alice''
   \<and> name (apply_op (EditPhone ''0501234567'' ''0999999999'')
        \<lparr>name = \<lparr>cls = NameC, val = Str ''Alice''\<rparr>,
         phones = [\<lparr>cls = PhoneC, val = Str ''0501234567''\<rparr>], birthday = None\<rparr>)
     = \<lparr>cls = NameC, val = Str ''Alice''\<rparr>"
  using reachable_Alice
    keys_equal_names [of "[(Str ''Alice'',
     \<lparr>name = \<lparr>cls = NameC, val = Str ''Alice''\<rparr>,
      phones = [\<lparr>cls = PhoneC, val = Str ''0501234567''\<rparr>], birthday = None\<rparr>)]"
      "EditPhone ''0501234567'' ''0999999999''"
      "\<lparr>name = \<lparr>cls = NameC, val = Str ''Alice''\<rparr>,
         phones = [\<lparr>cls = PhoneC, val = Str ''0501234567''\<rparr>], birthday = None\<rparr>"]
  by simp

theorem stored_phones_validated_witness:
  "\<exists>s. val \<lparr>cls = PhoneC, val = Str ''0501234567''\<rparr> = Str s
      \<and> Phone s = Inr \<lparr>cls = PhoneC, val = Str ''0501234567''\<rparr>
      \<and> length s = 10 \<and> list_all isdigit_char s"
  using reachable_Alice
    stored_phones_validated [of "[(Str ''Alice'',
     \<lparr>name = \<lparr>cls = NameC, val = Str ''Alice''\<rparr>,
      phones = [\<lparr>cls = PhoneC, val = Str ''0501234567''\<rparr>], birthday = None\<rparr>)]"]
  by simp

section \<open>Upcoming birthdays\<close>

lemma strptime_examples:
  "strptime ''29.02.2000'' = Inr \<lparr>year = 2000, month = 2, day = 29\<rparr>"
  "strptime ''12.03.2000'' = Inr \<lparr>year = 2000, month = 3, day = 12\<rparr>"
  "strptime ''16.03.1990'' = Inr \<lparr>year = 1990, month = 3, day = 16\<rparr>"
  "strptime ''01.01.0999'' = Inr \<lparr>year = 999, month = 1, day = 1\<rparr>"
  by code_simp+

lemma Birthday_examples:
  "Birthday ''29.02.2000'' = Inr \<lparr>cls = BirthdayC, val = Date \<lparr>year = 2000, month = 2, day = 29\<rparr>\<rparr>"
  "Birthday ''12.03.2000'' = Inr \<lparr>cls = BirthdayC, val = Date \<lparr>year = 2000, month = 3, day = 12\<rparr>\<rparr>"
  "Birthday ''16.03.1990'' = Inr \<lparr>cls = BirthdayC, val = Date \<lparr>year = 1990, month = 3, day = 16\<rparr>\<rparr>"
  "Birthday ''01.01.0999'' = Inr \<lparr>cls = BirthdayC, val = Date \<lparr>year = 999, month = 1, day = 1\<rparr>\<rparr>"
  by (simp_all add: Birthday_def strptime_examples)

lemma Record_init_Al:
  "Record_init ''Al''
     = Inr \<lparr>name = \<lparr>cls = NameC, val = Str ''Al''\<rparr>, phones = [], birthday = None\<rparr>"
  by (simp add: Record_init_def Name_def strip_def isspace_char_def code_point_def)

text \<open>
  C1. A call of \<open>get_upcoming_birthdays\<close> is not to raise for a contact born on
  29 February. The contact Al is built by the constructor and \<open>add_birthday\<close> with
  the birthday 29.02.2000. On 1 March 2023 the projection onto 2023, which is not a
  leap year, is \<open>replace(year=2023)\<close> of 29 February: it raises ValueError, nothing
  catches it, and the call returns no list. On 1 March 2024 the projection onto 2024
  has passed, and the projection onto 2025 raises in the same way.
\<close>

theorem leap_day_birthday_raises:
  "Record_init ''Al''
     = Inr \<lparr>name = \<lparr>cls = NameC, val = Str ''Al''\<rparr>, phones = [], birthday = None\<rparr>
   \<and> add_birthday ''29.02.2000''
       \<lparr>name = \<lparr>cls = NameC, val = Str ''Al''\<rparr>, phones = [], birthday = None\<rparr>
     = (None,
        \<lparr>name = \<lparr>cls = NameC, val = Str ''Al''\<rparr>, phones = [],
         birthday = Some \<lparr>cls = BirthdayC, val = Date \<lparr>year = 2000, month = 2, day = 29\<rparr>\<rparr>\<rparr>)
   \<and> get_upcoming_birthdays pad_year \<lparr>year = 2023, month = 3, day = 1\<rparr> 7
       [(Str ''Al'',
         \<lparr>name = \<lparr>cls = NameC, val = Str ''Al''\<rparr>, phones = [],
          birthday = Some \<lparr>cls = BirthdayC, val = Date \<lparr>year = 2000, month = 2, day = 29\<rparr>\<rparr>\<rparr>)]
     = Inl (ValueError ''day is out of range for month'')
   \<and> get_upcoming_birthdays pad_year \<lparr>year = 2024, month = 3, day = 1\<rparr> 7
       [(Str ''Al'',
         \<lparr>name = \<lparr>cls = NameC, val = Str ''Al''\<rparr>, phones = [],
          birthday = Some \<lparr>cls = BirthdayC, val = Date \<lparr>year = 2000, month = 2, day = 29\<rparr>\<rparr>\<rparr>)]
     = Inl (ValueError ''day is out of range for month'')"
  by (simp add: Record_init_Al add_birthday_def Birthday_examples get_upcoming_birthdays_def
      dict_values_def loop_body_def replace_year_def date_new_def days_in_month_def is_leap_def
      MINYEAR_def MAXYEAR_def date_lt_def)

theorem leap_day_birthday_raises_witness:
  "\<exists>e. get_upcoming_birthdays False \<lparr>year = 2023, month = 3, day = 1\<rparr> 7
       [(Str ''Al'',
         \<lparr>name = \<lparr>cls = NameC, val = Str ''Al''\<rparr>, phones = [],
          birthday = Some \<lparr>cls = BirthdayC, val = Date \<lparr>year = 2000, month = 2, day = 29\<rparr>\<rparr>\<rparr>)]
     = Inl e"
  using leap_day_birthday_raises [of False] by simp

section \<open>Rendering a birthday\<close>

lemma strftime_999:
  "strftime False \<lparr>year = 999, month = 1, day = 1\<rparr> = ''01.01.999''"
  "strftime True \<lparr>year = 999, month = 1, day = 1\<rparr> = ''01.01.0999''"
  by code_simp+

text \<open>
  C3. Rendering a birthday is to give back the text it was made from. The text
  \<open>01.01.0999\<close> has the form DD.MM.YYYY and denotes a date of the calendar, and
  \<open>Birthday\<close> accepts it. The rendering is \<open>strftime("%d.%m.%Y")\<close>, whose year
  comes from the C library: where that library does not pad a year below 1000 (glibc),
  the rendering is \<open>01.01.999\<close>, which is not the text given; where it pads, the
  rendering is the text given.
\<close>

theorem Birthday_year_below_1000_not_round_trip:
  "valid_date (dmy CHR ''0'' CHR ''1'' CHR ''0'' CHR ''1'' CHR ''0'' CHR ''9'' CHR ''9'' CHR ''9'')
   \<and> Birthday ''01.01.0999''
       = Inr \<lparr>cls = BirthdayC,
              val = Date (dmy CHR ''0'' CHR ''1'' CHR ''0'' CHR ''1'' CHR ''0'' CHR ''9'' CHR ''9'' CHR ''9'')\<rparr>
   \<and> Field_str False \<lparr>cls = BirthdayC, val = Date \<lparr>year = 999, month = 1, day = 1\<rparr>\<rparr>
       = Inr ''01.01.999''
   \<and> ''01.01.999'' \<noteq> ''01.01.0999''
   \<and> Field_str True \<lparr>cls = BirthdayC, val = Date \<lparr>year = 999, month = 1, day = 1\<rparr>\<rparr>
       = Inr ''01.01.0999''"
proof -
  have d: "dmy CHR ''0'' CHR ''1'' CHR ''0'' CHR ''1'' CHR ''0'' CHR ''9'' CHR ''9'' CHR ''9''
      = \<lparr>year = 999, month = 1, day = 1\<rparr>"
    by (simp add: dmy_def digit_val_def code_point_def)
  have v: "valid_date \<lparr>year = 999, month = 1, day = 1\<rparr>"
    by (simp add: valid_date_def MINYEAR_def MAXYEAR_def days_in_month_def)
  show ?thesis
    by (simp add: d v Birthday_examples Field_str_def strftime_999)
qed

theorem Birthday_year_below_1000_not_round_trip_witness:
  "\<exists>s. Field_str False \<lparr>cls = BirthdayC, val = Date \<lparr>year = 999, month = 1, day = 1\<rparr>\<rparr> = Inr s
      \<and> s \<noteq> ''01.01.0999''"
  using Birthday_year_below_1000_not_round_trip by simp

section \<open>Properties of the calendar\<close>





















section \<open>Upcoming birthdays within the window\<close>





















end
